theory Spec2Isabelle
  imports Complex_Main "HOL-Library.Log_Nat"
begin

section \<open>JavaScript values used by the components\<close>

text \<open>
  A plain JavaScript object with string keys is an association list of its own
  properties, in the order in which \<^verbatim>\<open>Object.keys\<close>, \<^verbatim>\<open>Object.values\<close> and
  \<^verbatim>\<open>Object.entries\<close> enumerate them. An object has every key once, so the lists
  that stand for objects have distinct keys; theorems that depend on it say so.
  \<^verbatim>\<open>undefined\<close> and \<^verbatim>\<open>null\<close> are \<open>None\<close>. Reading a property of
  \<^verbatim>\<open>undefined\<close> and \<^verbatim>\<open>Object.keys(undefined)\<close> throw a TypeError.
\<close>

datatype js_error = TypeError

type_synonym 'v js_object = "(string \<times> 'v) list"

definition Object_keys :: "'v js_object \<Rightarrow> string list" where
  "Object_keys obj = map fst obj"

definition Object_values :: "'v js_object \<Rightarrow> 'v list" where
  "Object_values obj = map snd obj"

definition get_prop :: "'v js_object \<Rightarrow> string \<Rightarrow> 'v option" where
  "get_prop obj k = map_of obj k"

text \<open>\<^verbatim>\<open>xs[i]\<close> for an index that is a natural number: \<^verbatim>\<open>undefined\<close> out of range.\<close>

fun at_index :: "'a list \<Rightarrow> nat \<Rightarrow> 'a option" where
  "at_index [] i = None"
| "at_index (x # xs) 0 = Some x"
| "at_index (x # xs) (Suc i) = at_index xs i"

text \<open>\<^verbatim>\<open>xs.indexOf(x)\<close>: the first index of \<open>x\<close>, or \<open>-1\<close>.\<close>

fun indexOf :: "'a list \<Rightarrow> 'a \<Rightarrow> int" where
  "indexOf [] x = - 1"
| "indexOf (y # ys) x =
     (if y = x then 0
      else (let i = indexOf ys x in if i = - 1 then - 1 else i + 1))"

section \<open>Roadmap and progress record\<close>

text \<open>
  The roadmap maps a chapter title to an object that maps a lesson title to its
  description. The progress record is the JSON object of the progress endpoint; each of
  its fields may be absent.
\<close>

type_synonym roadmap = "string js_object js_object"

record progress =
  completed_lessons :: "string list option"
  current_chapter :: "string option"
  current_lesson :: "string option"
  status :: "string option"

text \<open>The template literal \<^verbatim>\<open>`${chapter}: ${lesson}`\<close>.\<close>

definition lesson_id :: "string \<Rightarrow> string \<Rightarrow> string" where
  "lesson_id chapter lesson = chapter @ '': '' @ lesson"

text \<open>
  \<^verbatim>\<open>isLessonCompleted\<close> of RoadmapView.jsx; \<open>prog\<close> is the \<^verbatim>\<open>progress\<close> state,
  \<open>None\<close> before it is loaded.
\<close>

definition isLessonCompleted :: "progress option \<Rightarrow> string \<Rightarrow> string \<Rightarrow> bool" where
  "isLessonCompleted prog chapter lesson =
     (case prog of
        None \<Rightarrow> False
      | Some p \<Rightarrow>
          (case completed_lessons p of
             None \<Rightarrow> False
           | Some done \<Rightarrow> lesson_id chapter lesson \<in> set done))"

text \<open>
  \<^verbatim>\<open>isLessonUnlocked\<close> of RoadmapView.jsx, with its three rules in the source's order.
  \<open>rm\<close> is the \<^verbatim>\<open>roadmap\<close> state, \<open>None\<close> before it is loaded. Where the source reads
  \<^verbatim>\<open>roadmap[firstChapter]\<close> it has just found \<^verbatim>\<open>chapter === firstChapter\<close>.
\<close>

definition isLessonUnlocked ::
  "roadmap option \<Rightarrow> progress option \<Rightarrow> string \<Rightarrow> string \<Rightarrow> js_error + bool" where
  "isLessonUnlocked rm prog chapter lesson =
     (if isLessonCompleted prog chapter lesson then Inr True
      else if (case prog of None \<Rightarrow> False
               | Some p \<Rightarrow> current_chapter p = Some chapter \<and> current_lesson p = Some lesson)
      then Inr True
      else
        (case prog of
           None \<Rightarrow> Inr False
         | Some p \<Rightarrow>
             if status p = Some ''not_started'' then
               (case rm of
                  None \<Rightarrow> Inr False
                | Some r \<Rightarrow>
                    (let firstChapter = at_index (Object_keys r) 0 in
                     if Some chapter = firstChapter then
                       (case get_prop r chapter of
                          None \<Rightarrow> Inl TypeError
                        | Some lessons \<Rightarrow>
                            (let firstLesson = at_index (Object_keys lessons) 0
                             in Inr (Some lesson = firstLesson)))
                     else Inr False))
             else Inr False))"

text \<open>
  The roadmap view renders one row for every pair of a chapter title and a lesson title,
  by \<^verbatim>\<open>Object.entries(roadmap).map\<close> over \<^verbatim>\<open>Object.entries(lessons).map\<close>, and
  asks \<^verbatim>\<open>isLessonUnlocked\<close> for each of them.
\<close>

definition lessons_of :: "roadmap \<Rightarrow> (string \<times> string) list" where
  "lessons_of r = concat (map (\<lambda>(chapter, lessons). map (\<lambda>(lesson, desc). (chapter, lesson)) lessons) r)"

text \<open>The words of the specification, for comparison with the code.\<close>

definition is_current :: "progress \<Rightarrow> string \<Rightarrow> string \<Rightarrow> bool" where
  "is_current p chapter lesson \<longleftrightarrow>
     current_chapter p = Some chapter \<and> current_lesson p = Some lesson"

definition first_lesson :: "roadmap \<Rightarrow> (string \<times> string) option" where
  "first_lesson r =
     (case r of
        [] \<Rightarrow> None
      | (chapter, lessons) # _ \<Rightarrow>
          (case lessons of [] \<Rightarrow> None | (lesson, _) # _ \<Rightarrow> Some (chapter, lesson)))"

definition no_progress :: "progress \<Rightarrow> bool" where
  "no_progress p \<longleftrightarrow>
     (completed_lessons p = None \<or> completed_lessons p = Some [])
     \<and> current_chapter p = None \<and> current_lesson p = None"

definition current_in_roadmap :: "roadmap \<Rightarrow> progress \<Rightarrow> bool" where
  "current_in_roadmap r p \<longleftrightarrow>
     (case (current_chapter p, current_lesson p) of
        (Some cc, Some cl) \<Rightarrow> (cc, cl) \<in> set (lessons_of r)
      | _ \<Rightarrow> False)"

text \<open>
  The unlock rule as the specification words it: the current pair, or the first lesson of
  the first chapter when the status is \<^verbatim>\<open>not_started\<close> and no progress exists.
\<close>

definition spec_unlocked :: "roadmap \<Rightarrow> progress \<Rightarrow> string \<Rightarrow> string \<Rightarrow> bool" where
  "spec_unlocked r p chapter lesson \<longleftrightarrow>
     is_current p chapter lesson
     \<or> (status p = Some ''not_started'' \<and> no_progress p \<and> first_lesson r = Some (chapter, lesson))"

definition unlocked_lessons :: "roadmap \<Rightarrow> progress \<Rightarrow> (string \<times> string) list" where
  "unlocked_lessons r p =
     filter (\<lambda>(chapter, lesson). isLessonUnlocked (Some r) (Some p) chapter lesson = Inr True)
       (lessons_of r)"

section \<open>Lesson session: the quiz\<close>

datatype lesson_mode = Reading | Quiz | Completed

record question =
  question_text :: string
  options :: "string list"
  correct_option_index :: int
  explanation :: string

record lesson_content =
  lesson_title :: string
  content_markdown :: string
  questions :: "question list"

record quiz_state =
  mode :: lesson_mode
  currentQuestionIdx :: nat
  selectedOption :: "int option"
  isAnswered :: bool
  isCorrect :: bool

text \<open>The initial values of the \<^verbatim>\<open>useState\<close> hooks of LessonView.jsx.\<close>

definition initial_quiz_state :: quiz_state where
  "initial_quiz_state =
     \<lparr>mode = Reading, currentQuestionIdx = 0, selectedOption = None,
      isAnswered = False, isCorrect = False\<rparr>"

definition handleOptionSelect :: "quiz_state \<Rightarrow> int \<Rightarrow> quiz_state" where
  "handleOptionSelect s idx = (if isAnswered s then s else s\<lparr>selectedOption := Some idx\<rparr>)"

text \<open>
  \<^verbatim>\<open>content.questions[currentQuestionIdx]\<close> is \<^verbatim>\<open>undefined\<close> out of range, and reading
  \<^verbatim>\<open>correct_option_index\<close> of it throws.
\<close>

definition handleSubmitAnswer :: "lesson_content \<Rightarrow> quiz_state \<Rightarrow> js_error + quiz_state" where
  "handleSubmitAnswer content s =
     (case selectedOption s of
        None \<Rightarrow> Inr s
      | Some sel \<Rightarrow>
          (case at_index (questions content) (currentQuestionIdx s) of
             None \<Rightarrow> Inl TypeError
           | Some q \<Rightarrow>
               (let correct = (sel = correct_option_index q)
                in Inr (s\<lparr>isAnswered := True, isCorrect := correct\<rparr>))))"

text \<open>\<^verbatim>\<open>content.questions.length - 1\<close> is \<open>-1\<close> for an empty quiz, so the comparison is on integers.\<close>

definition handleNextQuestion :: "lesson_content \<Rightarrow> quiz_state \<Rightarrow> quiz_state" where
  "handleNextQuestion content s =
     (if int (currentQuestionIdx s) < int (length (questions content)) - 1 then
        s\<lparr>currentQuestionIdx := currentQuestionIdx s + 1, selectedOption := None,
          isAnswered := False, isCorrect := False\<rparr>
      else s\<lparr>mode := Completed\<rparr>)"

section \<open>Requests and visible effects\<close>

text \<open>
  An asynchronous handler is modelled by the list of its effects in the order in which it
  performs them; the outcome of each request it awaits is an argument. The error of a
  rejected axios promise carries \<^verbatim>\<open>code\<close>, \<^verbatim>\<open>message\<close> and \<^verbatim>\<open>response.status\<close>.
\<close>

record axios_error =
  err_code :: "string option"
  err_message :: "string option"
  err_status :: "nat option"

datatype 'a response = Rejected axios_error | Resolved 'a

record completion_payload =
  payload_topic :: string
  payload_current_chapter :: string
  payload_current_lesson :: string
  payload_next_chapter :: string
  payload_next_lesson :: "string option"

datatype topics_error = BackendNotRunning | FailedToLoadTopics

datatype effect =
    GetTopics
  | GetRoadmap string
  | PostComplete completion_payload
  | DeleteTopic string
  | SetTimeout nat
  | Confirm string
  | Alert string
  | ConsoleLog
  | ConsoleError
  | SetLoading bool
  | SetError "topics_error option"
  | SetTopics "string list"
  | SetDeleteLoading "string option"
  | BackToRoadmap

section \<open>Next-lesson resolution\<close>

text \<open>The \<^verbatim>\<open>currentLesson\<close> state of Dashboard.jsx, with its fields \<^verbatim>\<open>topic\<close>, \<^verbatim>\<open>chapter\<close> and \<^verbatim>\<open>lesson\<close>.\<close>

record lesson_ref =
  ref_topic :: string
  ref_chapter :: string
  ref_lesson :: string

text \<open>
  Lines 167 to 190 of \<^verbatim>\<open>handleLessonComplete\<close>: the pair \<^verbatim>\<open>(nextChapter, nextLessonTitle)\<close>.
  \<^verbatim>\<open>nextLessonTitle\<close> is \<^verbatim>\<open>undefined\<close> when it is read from an empty key list.
\<close>

definition next_position :: "roadmap \<Rightarrow> string \<Rightarrow> string \<Rightarrow> js_error + (string \<times> string option)" where
  "next_position roadmapResult cur_chapter cur_lesson =
     (let chapters = Object_keys roadmapResult;
          currentChapIdx = indexOf chapters cur_chapter
      in if currentChapIdx \<noteq> - 1 then
           (case get_prop roadmapResult cur_chapter of
              None \<Rightarrow> Inl TypeError
            | Some chapter_lessons \<Rightarrow>
                (let lessons = Object_keys chapter_lessons;
                     currentLessonIdx = indexOf lessons cur_lesson
                 in if currentLessonIdx < int (length lessons) - 1 then
                      Inr (cur_chapter, at_index lessons (nat (currentLessonIdx + 1)))
                    else if currentChapIdx < int (length chapters) - 1 then
                      (case at_index chapters (nat (currentChapIdx + 1)) of
                         None \<Rightarrow> Inl TypeError
                       | Some nextChapter \<Rightarrow>
                           (case get_prop roadmapResult nextChapter of
                              None \<Rightarrow> Inl TypeError
                            | Some next_lessons \<Rightarrow>
                                (let nextChapLessons = Object_keys next_lessons
                                 in Inr (nextChapter, at_index nextChapLessons 0))))
                    else Inr (cur_chapter, Some cur_lesson)))
         else Inr (cur_chapter, Some cur_lesson))"

text \<open>
  \<^verbatim>\<open>handleLessonComplete\<close>: the roadmap is fetched, the next position resolved and the
  completion posted; any rejection or exception inside the \<^verbatim>\<open>try\<close> block ends in the
  alert of the \<^verbatim>\<open>catch\<close> block. The roadmap of the response is \<open>None\<close> when the
  response has none.
\<close>

definition save_failed :: "effect list" where
  "save_failed = [ConsoleError, Alert ''Failed to save progress. Please try again.'']"

definition handleLessonComplete ::
  "string \<Rightarrow> lesson_ref option \<Rightarrow> roadmap option response \<Rightarrow> unit response \<Rightarrow> effect list" where
  "handleLessonComplete activeTopic currentLesson roadmapRes completeRes =
     (case currentLesson of
        None \<Rightarrow> []
      | Some cur \<Rightarrow>
          GetRoadmap activeTopic #
          (case roadmapRes of
             Rejected err \<Rightarrow> save_failed
           | Resolved roadmapResult \<Rightarrow>
               (case (case roadmapResult of
                        None \<Rightarrow> Inl TypeError
                      | Some r \<Rightarrow> next_position r (ref_chapter cur) (ref_lesson cur)) of
                  Inl e \<Rightarrow> save_failed
                | Inr (nextChapter, nextLessonTitle) \<Rightarrow>
                    PostComplete
                      \<lparr>payload_topic = activeTopic,
                       payload_current_chapter = ref_chapter cur,
                       payload_current_lesson = ref_lesson cur,
                       payload_next_chapter = nextChapter,
                       payload_next_lesson = nextLessonTitle\<rparr> #
                    (case completeRes of
                       Rejected err \<Rightarrow> save_failed
                     | Resolved _ \<Rightarrow> [BackToRoadmap]))))"

section \<open>Topic dashboard\<close>

text \<open>
  \<^verbatim>\<open>handleDelete\<close>: \<open>confirmed\<close> is the answer of \<^verbatim>\<open>window.confirm\<close>, \<open>res\<close> the
  outcome of the delete request, \<open>topics\<close> the list the handler closed over (the
  displayed list at the time of the click).
\<close>

definition handleDelete :: "string list \<Rightarrow> string \<Rightarrow> bool \<Rightarrow> unit response \<Rightarrow> effect list" where
  "handleDelete topics t confirmed res =
     Confirm t #
     (if \<not> confirmed then []
      else
        [SetDeleteLoading (Some t), DeleteTopic t] @
        (case res of
           Resolved _ \<Rightarrow> [SetTopics (filter (\<lambda>x. x \<noteq> t) topics)]
         | Rejected err \<Rightarrow>
             [Alert (''Failed to delete topic: '' @
                (case err_message err of None \<Rightarrow> ''undefined'' | Some m \<Rightarrow> m))]) @
        [SetDeleteLoading None])"

text \<open>
  The state of the topic dashboard (its \<^verbatim>\<open>useState\<close> hooks with their initial values),
  the state setters among the effects, and the top-level branch of its render: the
  spinner is returned whenever \<^verbatim>\<open>loading && topics.length === 0\<close>; otherwise the listing
  is rendered, with the error banner and its Retry button when \<^verbatim>\<open>error\<close> is set.
\<close>

record dashboard_state =
  st_topics :: "string list"
  st_loading :: bool
  st_error :: "topics_error option"
  st_deleteLoading :: "string option"

definition initial_dashboard :: dashboard_state where
  "initial_dashboard =
     \<lparr>st_topics = [], st_loading = True, st_error = None, st_deleteLoading = None\<rparr>"

fun apply_effect :: "dashboard_state \<Rightarrow> effect \<Rightarrow> dashboard_state" where
  "apply_effect s (SetLoading b) = s\<lparr>st_loading := b\<rparr>"
| "apply_effect s (SetError e) = s\<lparr>st_error := e\<rparr>"
| "apply_effect s (SetTopics ts) = s\<lparr>st_topics := ts\<rparr>"
| "apply_effect s (SetDeleteLoading d) = s\<lparr>st_deleteLoading := d\<rparr>"
| "apply_effect s e = s"

definition state_after :: "dashboard_state \<Rightarrow> effect list \<Rightarrow> dashboard_state" where
  "state_after s es = foldl apply_effect s es"

datatype dashboard_view = Spinner | Listing "topics_error option"

definition render_view :: "dashboard_state \<Rightarrow> dashboard_view" where
  "render_view s = (if st_loading s \<and> st_topics s = [] then Spinner else Listing (st_error s))"

fun is_alert :: "effect \<Rightarrow> bool" where
  "is_alert (Alert m) = True"
| "is_alert e = False"

fun is_request :: "effect \<Rightarrow> bool" where
  "is_request GetTopics = True"
| "is_request (GetRoadmap t) = True"
| "is_request (PostComplete p) = True"
| "is_request (DeleteTopic t) = True"
| "is_request e = False"

fun timeout_delays :: "effect list \<Rightarrow> nat list" where
  "timeout_delays [] = []"
| "timeout_delays (SetTimeout d # es) = d # timeout_delays es"
| "timeout_delays (e # es) = timeout_delays es"

text \<open>\<^verbatim>\<open>s.includes(sub)\<close> on strings.\<close>

fun startsWith :: "string \<Rightarrow> string \<Rightarrow> bool" where
  "startsWith s [] = True"
| "startsWith [] (c # cs) = False"
| "startsWith (x # xs) (c # cs) = (x = c \<and> startsWith xs cs)"

fun includes_str :: "string \<Rightarrow> string \<Rightarrow> bool" where
  "includes_str [] sub = (sub = [])"
| "includes_str (x # xs) sub = (startsWith (x # xs) sub \<or> includes_str xs sub)"

definition isBackendDown :: "axios_error \<Rightarrow> bool" where
  "isBackendDown err \<longleftrightarrow>
     err_code err = Some ''ERR_NETWORK''
     \<or> (case err_message err of None \<Rightarrow> False | Some m \<Rightarrow> includes_str m ''Network Error'')
     \<or> (case err_status err of
          None \<Rightarrow> False
        | Some st \<Rightarrow> st \<noteq> 0 \<and> st \<in> set [500, 502, 503])"

text \<open>
  The \<^verbatim>\<open>finally\<close> block of \<^verbatim>\<open>fetchTopics\<close>. \<open>loading\<close> is the constant that the
  function closed over in the render that created it; the timer callback calls the same
  function, so the whole chain of retries reads the same value: \<open>True\<close> for the call of
  the mount effect, since the state starts as \<^verbatim>\<open>useState(true)\<close>.
\<close>

definition finally_loading :: "bool \<Rightarrow> nat \<Rightarrow> effect list" where
  "finally_loading loading retryCount =
     (if retryCount = 0 \<or> \<not> loading then [SetLoading False] else [])"

text \<open>
  \<^verbatim>\<open>fetchTopics(retryCount)\<close>. \<open>backend n\<close> is the outcome of the request made with
  retry count \<open>n\<close>; the payload of a response is \<open>None\<close> when \<^verbatim>\<open>data.topics\<close> is not
  an array. The retry runs when the timer of 2000 ms fires, after the \<^verbatim>\<open>finally\<close> block.
\<close>

function fetchTopics ::
  "bool \<Rightarrow> (nat \<Rightarrow> string list option response) \<Rightarrow> nat \<Rightarrow> effect list" where
  "fetchTopics loading backend retryCount =
     [SetLoading True, SetError None, GetTopics] @
     (case backend retryCount of
        Resolved list \<Rightarrow>
          [SetTopics (case list of Some ts \<Rightarrow> ts | None \<Rightarrow> []), SetError None]
          @ finally_loading loading retryCount
      | Rejected err \<Rightarrow>
          if isBackendDown err \<and> retryCount < 5 then
            [ConsoleLog, SetTimeout 2000]
            @ finally_loading loading retryCount
            @ fetchTopics loading backend (retryCount + 1)
          else
            [SetError (Some (if isBackendDown err then BackendNotRunning else FailedToLoadTopics)),
             SetTopics [], ConsoleError]
            @ finally_loading loading retryCount)"
  by pat_completeness auto
termination
  by (relation "measure (\<lambda>(loading, backend, retryCount). 5 - retryCount)") auto

definition retriable :: "(nat \<Rightarrow> string list option response) \<Rightarrow> nat \<Rightarrow> bool" where
  "retriable backend n \<longleftrightarrow>
     (case backend n of Rejected err \<Rightarrow> isBackendDown err | Resolved list \<Rightarrow> False)"

definition network_error :: axios_error where
  "network_error =
     \<lparr>err_code = Some ''ERR_NETWORK'', err_message = Some ''Network Error'', err_status = None\<rparr>"

section \<open>Overall progress\<close>

text \<open>
  JavaScript numbers are IEEE 754 binary64 values. A finite one is a rational, and
  division and multiplication return the exact result rounded to the nearest binary64
  value, ties to the even significand. \<open>to_double\<close> is that rounding for the normal
  range, which the quotients and products of counts below \<open>2 ^ 53\<close> stay in:
  \<open>exponent x\<close> is the integer \<open>e\<close> with \<open>2 ^ e \<le> x < 2 ^ (e + 1)\<close>, and the
  significand keeps 53 bits. \<^verbatim>\<open>Math.round\<close> rounds to the nearest integer, ties upwards.
\<close>

definition round_ties_even :: "rat \<Rightarrow> int" where
  "round_ties_even m =
     (let f = \<lfloor>m\<rfloor>; r = m - of_int f
      in if r < 1 / 2 then f else if 1 / 2 < r then f + 1 else if even f then f else f + 1)"

definition exponent :: "rat \<Rightarrow> int" where
  "exponent x =
     (if 1 \<le> x then bitlen \<lfloor>x\<rfloor> - 1 else - bitlen (\<lceil>1 / x\<rceil> - 1))"

definition to_double :: "rat \<Rightarrow> rat" where
  "to_double x =
     (if x = 0 then 0
      else (let ulp = 2 powi (exponent \<bar>x\<bar> - 52)
            in sgn x * (of_int (round_ties_even (\<bar>x\<bar> / ulp)) * ulp)))"

definition Math_round :: "rat \<Rightarrow> int" where
  "Math_round x = \<lfloor>x + 1 / 2\<rfloor>"

text \<open>
  \<^verbatim>\<open>Math.round((completedCount / Math.max(1, totalLessons)) * 100)\<close>, line 127 of
  RoadmapView.jsx, as a function of the two counts.
\<close>

definition percent :: "nat \<Rightarrow> nat \<Rightarrow> int" where
  "percent completedCount totalLessons =
     Math_round (to_double (to_double (of_nat completedCount / of_nat (max 1 totalLessons)) * 100))"

text \<open>
  \<^verbatim>\<open>Object.values(roadmap).reduce((acc, curr) => acc + Object.keys(curr).length, 0)\<close> and
  \<^verbatim>\<open>progress?.completed_lessons?.length || 0\<close>.
\<close>

definition totalLessons :: "roadmap \<Rightarrow> nat" where
  "totalLessons r = foldl (\<lambda>acc curr. acc + length (Object_keys curr)) 0 (Object_values r)"

definition completedCount :: "progress option \<Rightarrow> nat" where
  "completedCount prog =
     (case prog of
        None \<Rightarrow> 0
      | Some p \<Rightarrow> (case completed_lessons p of None \<Rightarrow> 0 | Some done \<Rightarrow> length done))"

definition progressPercent :: "roadmap \<Rightarrow> progress option \<Rightarrow> int" where
  "progressPercent r prog = percent (completedCount prog) (totalLessons r)"

section \<open>Helper lemmas\<close>

lemma first_lesson_iff:
  "first_lesson r = Some (c, l) \<longleftrightarrow> (\<exists>d ls rest. r = (c, (l, d) # ls) # rest)"
  by (auto simp: first_lesson_def split: list.splits prod.splits)

lemma isLessonUnlocked_not_completed:
  assumes "\<not> isLessonCompleted (Some p) c l"
  shows "isLessonUnlocked (Some r) (Some p) c l =
    Inr (is_current p c l \<or> (status p = Some ''not_started'' \<and> first_lesson r = Some (c, l)))"
proof (cases "is_current p c l")
  case True
  with assms show ?thesis by (simp add: isLessonUnlocked_def is_current_def)
next
  case nc: False
  show ?thesis
  proof (cases "status p = Some ''not_started''")
    case False
    with assms nc show ?thesis by (simp add: isLessonUnlocked_def is_current_def)
  next
    case ns: True
    show ?thesis
    proof (cases r)
      case Nil
      with assms nc ns show ?thesis
        by (simp add: isLessonUnlocked_def is_current_def Object_keys_def first_lesson_def)
    next
      case (Cons e rest)
      obtain k ls where e: "e = (k, ls)" by (cases e)
      show ?thesis
      proof (cases ls)
        case Nil
        with assms nc ns Cons e show ?thesis
          by (auto simp: isLessonUnlocked_def is_current_def Object_keys_def first_lesson_def
              get_prop_def)
      next
        case (Cons e' ls')
        obtain l' d where e': "e' = (l', d)" by (cases e')
        with assms nc ns \<open>r = e # rest\<close> e Cons show ?thesis
          by (auto simp: isLessonUnlocked_def is_current_def Object_keys_def first_lesson_def
              get_prop_def)
      qed
    qed
  qed
qed

lemma isLessonUnlocked_total: "\<exists>b. isLessonUnlocked rm prog c l = Inr b"
proof (cases "isLessonCompleted prog c l")
  case True
  then show ?thesis by (auto simp: isLessonUnlocked_def)
next
  case nd: False
  show ?thesis
  proof (cases prog)
    case None
    then show ?thesis by (auto simp: isLessonUnlocked_def)
  next
    case (Some p)
    show ?thesis
    proof (cases rm)
      case None
      with Some show ?thesis by (auto simp: isLessonUnlocked_def)
    next
      case (Some r)
      with nd \<open>prog = Some p\<close> show ?thesis
        using isLessonUnlocked_not_completed [of p c l r] by simp
    qed
  qed
qed

lemma in_lessons_of:
  "(c, l) \<in> set (lessons_of r) \<longleftrightarrow> (\<exists>ls d. (c, ls) \<in> set r \<and> (l, d) \<in> set ls)"
proof
  assume "(c, l) \<in> set (lessons_of r)"
  then show "\<exists>ls d. (c, ls) \<in> set r \<and> (l, d) \<in> set ls"
    by (auto simp: lessons_of_def)
next
  assume "\<exists>ls d. (c, ls) \<in> set r \<and> (l, d) \<in> set ls"
  then obtain ls d where "(c, ls) \<in> set r" "(l, d) \<in> set ls" by blast
  then show "(c, l) \<in> set (lessons_of r)"
    by (force simp: lessons_of_def)
qed

lemma first_lesson_in_lessons_of:
  "first_lesson r = Some (c, l) \<Longrightarrow> (c, l) \<in> set (lessons_of r)"
  unfolding first_lesson_iff in_lessons_of by fastforce

lemma at_index_nth: "i < length xs \<Longrightarrow> at_index xs i = Some (xs ! i)"
  by (induction xs i rule: at_index.induct) auto

lemma at_index_None: "length xs \<le> i \<Longrightarrow> at_index xs i = None"
  by (induction xs i rule: at_index.induct) auto

lemma indexOf_ge: "- 1 \<le> indexOf xs x"
  by (induction xs) (auto simp: Let_def)

lemma indexOf_notin: "x \<notin> set xs \<Longrightarrow> indexOf xs x = - 1"
  by (induction xs) (auto simp: Let_def)

lemma indexOf_in: "x \<in> set xs \<Longrightarrow> 0 \<le> indexOf xs x"
  by (induction xs) (auto simp: Let_def)




lemma indexOf_absent_iff: "indexOf xs x = - 1 \<longleftrightarrow> x \<notin> set xs"
  using indexOf_in [of x xs] indexOf_notin [of x xs] by auto

lemma get_prop_key: "k \<in> set (Object_keys r) \<Longrightarrow> \<exists>v. get_prop r k = Some v"
  by (induction r) (auto simp: Object_keys_def get_prop_def)

lemma at_index_in_set: "at_index xs i = Some x \<Longrightarrow> x \<in> set xs"
  by (induction xs i rule: at_index.induct) auto

lemma next_position_total: "\<exists>res. next_position r c l = Inr res"
proof (cases "indexOf (Object_keys r) c = - 1")
  case True
  then show ?thesis by (auto simp: next_position_def)
next
  case False
  then have "c \<in> set (Object_keys r)" by (simp add: indexOf_absent_iff)
  then obtain ls where ls: "get_prop r c = Some ls" using get_prop_key by blast
  show ?thesis
  proof (cases "indexOf (Object_keys ls) l < int (length (Object_keys ls)) - 1")
    case True
    with False ls show ?thesis by (auto simp: next_position_def Let_def)
  next
    case nl: False
    show ?thesis
    proof (cases "indexOf (Object_keys r) c < int (length (Object_keys r)) - 1")
      case False
      with \<open>indexOf (Object_keys r) c \<noteq> - 1\<close> ls nl show ?thesis
        by (auto simp: next_position_def Let_def)
    next
      case True
      with indexOf_ge [of "Object_keys r" c]
      have "nat (indexOf (Object_keys r) c + 1) < length (Object_keys r)" by linarith
      then obtain k where k: "at_index (Object_keys r) (nat (indexOf (Object_keys r) c + 1)) = Some k"
        by (simp add: at_index_nth)
      then have "k \<in> set (Object_keys r)" by (rule at_index_in_set)
      then obtain nls where "get_prop r k = Some nls" using get_prop_key by blast
      with \<open>indexOf (Object_keys r) c \<noteq> - 1\<close> ls nl True k show ?thesis
        by (auto simp: next_position_def Let_def)
    qed
  qed
qed

lemma timeout_delays_append: "timeout_delays (xs @ ys) = timeout_delays xs @ timeout_delays ys"
  by (induction xs rule: timeout_delays.induct) simp_all

lemma finally_loading_quiet:
  "filter is_request (finally_loading loading n) = []" "timeout_delays (finally_loading loading n) = []"
  by (simp_all add: finally_loading_def)

lemma fetchTopics_retries:
  "\<exists>n. (n = 0 \<or> retryCount + n \<le> 5)
     \<and> (\<forall>i<n. retriable backend (retryCount + i))
     \<and> (\<not> retriable backend (retryCount + n) \<or> 5 \<le> retryCount + n)
     \<and> filter is_request (fetchTopics loading backend retryCount) = replicate (n + 1) GetTopics
     \<and> timeout_delays (fetchTopics loading backend retryCount) = replicate n 2000"
proof (induction loading backend retryCount rule: fetchTopics.induct)
  case (1 loading backend retryCount)
  show ?case
  proof (cases "retriable backend retryCount \<and> retryCount < 5")
    case False
    then have "filter is_request (fetchTopics loading backend retryCount) = replicate (0 + 1) GetTopics
      \<and> timeout_delays (fetchTopics loading backend retryCount) = replicate 0 2000"
      by (subst (1 2) fetchTopics.simps)
        (auto simp: retriable_def finally_loading_quiet timeout_delays_append split: response.split)
    with False show ?thesis
      by (intro exI [of _ 0]) auto
  next
    case True
    then obtain err where err: "backend retryCount = Rejected err" "isBackendDown err"
      by (auto simp: retriable_def split: response.splits)
    from True have lt: "retryCount < 5" by simp
    from "1.IH" [OF err(1)] err(2) lt obtain n where
      n: "n = 0 \<or> retryCount + 1 + n \<le> 5"
        "\<forall>i<n. retriable backend (retryCount + 1 + i)"
        "\<not> retriable backend (retryCount + 1 + n) \<or> 5 \<le> retryCount + 1 + n"
        "filter is_request (fetchTopics loading backend (retryCount + 1)) = replicate (n + 1) GetTopics"
        "timeout_delays (fetchTopics loading backend (retryCount + 1)) = replicate n 2000"
      by auto
    have r: "\<forall>i<Suc n. retriable backend (retryCount + i)"
    proof (intro allI impI)
      fix i assume "i < Suc n"
      show "retriable backend (retryCount + i)"
      proof (cases i)
        case 0
        with True show ?thesis by simp
      next
        case (Suc k)
        with \<open>i < Suc n\<close> n(2) show ?thesis by simp
      qed
    qed
    have f: "filter is_request (fetchTopics loading backend retryCount) = replicate (Suc n + 1) GetTopics"
      using err lt n(4)
      by (subst fetchTopics.simps) (simp add: finally_loading_quiet)
    have t: "timeout_delays (fetchTopics loading backend retryCount) = replicate (Suc n) 2000"
      using err lt n(5)
      by (subst fetchTopics.simps) (simp add: finally_loading_quiet timeout_delays_append)
    from n(1) n(3) lt r f t show ?thesis
      by (intro exI [of _ "Suc n"]) auto
  qed
qed

lemma exponent_lower: "0 < x \<Longrightarrow> 2 powi (exponent x) \<le> x"
proof (cases "1 \<le> x")
  case True
  define n where "n = \<lfloor>x\<rfloor>"
  from True have n: "0 < n" by (simp add: n_def)
  from bitlen_bounds [OF n] have "2 ^ nat (bitlen n - 1) \<le> n" by simp
  then have "(2::rat) ^ nat (bitlen n - 1) \<le> of_int n"
    by (metis of_int_le_iff of_int_numeral of_int_power)
  also have "\<dots> \<le> x" by (simp add: n_def)
  finally have a: "(2::rat) ^ nat (bitlen n - 1) \<le> x" .
  from n have "1 \<le> bitlen n" by (auto simp: bitlen_alt_def)
  then have "(2::rat) powi (bitlen n - 1) = 2 ^ nat (bitlen n - 1)"
    by (simp add: power_int_def)
  with a True show ?thesis by (simp add: exponent_def n_def)
next
  case False
  assume pos: "0 < x"
  define n where "n = \<lceil>1 / x\<rceil>"
  define m where "m = n - 1"
  from False pos have "1 < 1 / x" by simp
  then have "1 < n" unfolding n_def by (simp add: less_ceiling_iff)
  then have m: "0 < m" by (simp add: m_def)
  from bitlen_bounds [OF m] have "m < 2 ^ nat (bitlen m)" by simp
  then have "n \<le> 2 ^ nat (bitlen m)" by (simp add: m_def)
  then have "(of_int n :: rat) \<le> 2 ^ nat (bitlen m)"
    by (metis of_int_le_iff of_int_numeral of_int_power)
  moreover have "1 / x \<le> of_int n" by (simp add: n_def)
  ultimately have "1 / x \<le> 2 ^ nat (bitlen m)" by (rule order_trans [rotated])
  with pos have "1 / 2 ^ nat (bitlen m) \<le> x"
    by (simp add: field_simps)
  moreover have "(2::rat) powi (- bitlen m) = 1 / 2 ^ nat (bitlen m)"
    using bitlen_nonneg [of m] by (simp add: power_int_def field_simps)
  ultimately show ?thesis using False by (simp add: exponent_def n_def m_def)
qed

lemma round_ties_even_error: "\<bar>of_int (round_ties_even m) - m\<bar> \<le> 1 / 2"
proof -
  have "of_int \<lfloor>m\<rfloor> \<le> m" "m < of_int \<lfloor>m\<rfloor> + 1" by linarith+
  then show ?thesis
    by (auto simp: round_ties_even_def Let_def)
qed

lemma to_double_error:
  assumes "0 < x"
  shows "\<bar>to_double x - x\<bar> \<le> x / 2 ^ 53"
proof -
  define ulp :: rat where "ulp = 2 powi (exponent x - 52)"
  have ulp_pos: "0 < ulp" by (simp add: ulp_def)
  have ulp_eq: "ulp = 2 powi (exponent x) / 2 ^ 52"
    by (simp add: ulp_def power_int_diff)
  have td: "to_double x = of_int (round_ties_even (x / ulp)) * ulp"
    using assms by (simp add: to_double_def ulp_def Let_def)
  have "to_double x - x = (of_int (round_ties_even (x / ulp)) - x / ulp) * ulp"
    using ulp_pos by (simp add: td field_simps)
  then have "\<bar>to_double x - x\<bar> = \<bar>of_int (round_ties_even (x / ulp)) - x / ulp\<bar> * ulp"
    using ulp_pos by (simp add: abs_mult abs_of_pos)
  also have "\<dots> \<le> 1 / 2 * ulp"
    using round_ties_even_error [of "x / ulp"] ulp_pos by (simp add: mult_right_mono)
  also have "\<dots> = 2 powi (exponent x) / 2 ^ 53"
    by (simp add: ulp_eq)
  also have "\<dots> \<le> x / 2 ^ 53"
    using exponent_lower [OF assms] by (simp add: divide_right_mono)
  finally show ?thesis .
qed

lemma to_double_zero: "to_double 0 = 0"
  by (simp add: to_double_def)

lemma to_double_nonneg: "0 \<le> x \<Longrightarrow> 0 \<le> to_double x"
proof (cases "x = 0")
  case True
  then show ?thesis by (simp add: to_double_zero)
next
  case False
  assume "0 \<le> x"
  with False have pos: "0 < x" by simp
  have "x / 2 ^ 53 \<le> x" using pos by (simp add: field_simps)
  with to_double_error [OF pos] show ?thesis by linarith
qed


lemma int_gap_up:
  fixes r :: int and a B :: nat
  assumes "(2 * of_int r + 1) * (of_nat B :: rat) < 200 * of_nat a"
  shows "(2 * of_int r + 1) * (of_nat B :: rat) + 1 \<le> 200 * of_nat a"
proof -
  have "(of_int ((2 * r + 1) * int B) :: rat) < of_int (200 * int a)"
    using assms by simp
  then have "(2 * r + 1) * int B < 200 * int a"
    by (simp only: of_int_less_iff)
  then have "(2 * r + 1) * int B + 1 \<le> 200 * int a" by simp
  then have "(of_int ((2 * r + 1) * int B + 1) :: rat) \<le> of_int (200 * int a)"
    by (simp only: of_int_le_iff)
  then show ?thesis by simp
qed

lemma int_gap_down:
  fixes r :: int and a B :: nat
  assumes "200 * of_nat a < (2 * of_int r - 1) * (of_nat B :: rat)"
  shows "200 * of_nat a + 1 \<le> (2 * of_int r - 1) * (of_nat B :: rat)"
proof -
  have "(of_int (200 * int a) :: rat) < of_int ((2 * r - 1) * int B)"
    using assms by simp
  then have "200 * int a < (2 * r - 1) * int B"
    by (simp only: of_int_less_iff)
  then have "200 * int a + 1 \<le> (2 * r - 1) * int B" by simp
  then have "(of_int (200 * int a + 1) :: rat) \<le> of_int ((2 * r - 1) * int B)"
    by (simp only: of_int_le_iff)
  then show ?thesis by simp
qed

lemma percent_nearest:
  assumes a32: "a < 2 ^ 32"
  shows "\<bar>of_int (percent a b) - 100 * of_nat a / of_nat (max 1 b)\<bar> \<le> (1 / 2 :: rat)"
proof (cases "a = 0")
  case True
  have "\<lfloor>1 / 2 :: rat\<rfloor> = 0" by (rule floor_unique) simp_all
  with True show ?thesis
    by (simp add: percent_def to_double_zero Math_round_def)
next
  case False
  define B where "B = max 1 b"
  define A :: rat where "A = of_nat a"
  define Bq :: rat where "Bq = of_nat B"
  define x where "x = A / Bq"
  define q where "q = to_double x"
  define y where "y = q * 100"
  define p where "p = to_double y"
  define r where "r = Math_round p"
  define u :: rat where "u = 1 / 2 ^ 53"
  define X where "X = 100 * x"
  have Bpos: "0 < Bq" by (simp add: Bq_def B_def)
  have Apos: "0 < A" using False by (simp add: A_def)
  have A32: "A < 2 ^ 32"
  proof -
    have "(of_nat a :: rat) < of_nat (2 ^ 32)" using a32 by (simp only: of_nat_less_iff)
    then show ?thesis by (simp add: A_def)
  qed
  have xpos: "0 < x" using Apos Bpos by (simp add: x_def)
  have upos: "0 < u" "u \<le> 1" by (simp_all add: u_def)
  have e1: "\<bar>q - x\<bar> \<le> x * u"
    using to_double_error [OF xpos] by (simp add: q_def u_def)
  have "x * u \<le> x" using xpos upos by (simp add: mult_left_le)
  with e1 have qb: "0 \<le> q" "q \<le> 2 * x" by linarith+
  have e2: "\<bar>p - y\<bar> \<le> y * u"
  proof (cases "y = 0")
    case True
    then show ?thesis by (simp add: p_def to_double_zero)
  next
    case False
    with qb have "0 < y" by (simp add: y_def)
    from to_double_error [OF this] show ?thesis by (simp add: p_def u_def)
  qed
  have "y * u \<le> 200 * x * u"
    using qb upos by (simp add: y_def mult_right_mono)
  with e2 have e2': "\<bar>p - y\<bar> \<le> 200 * x * u" by linarith
  have "\<bar>y - X\<bar> = 100 * \<bar>q - x\<bar>" by (simp add: y_def X_def abs_if)
  with e1 have e3: "\<bar>y - X\<bar> \<le> 100 * x * u" by simp
  from e2' e3 have err: "\<bar>p - X\<bar> \<le> 300 * x * u" by linarith
  have "300 * A * u < 1 / 2"
  proof -
    have "300 * A * u < 300 * 2 ^ 32 * u" using A32 upos by simp
    also have "\<dots> < 1 / 2" by (simp add: u_def)
    finally show ?thesis .
  qed
  then have "300 * A * u / Bq < 1 / 2 / Bq"
    using Bpos by (simp only: divide_strict_right_mono)
  then have gap: "300 * x * u < 1 / (2 * Bq)"
    by (simp add: x_def field_simps)
  have rb: "of_int r \<le> p + 1 / 2" "p + 1 / 2 < of_int r + 1"
    unfolding r_def Math_round_def by linarith+
  have XB: "X * Bq = 100 * A" using Bpos by (simp add: X_def x_def)
  have up: "X \<le> of_int r + 1 / 2"
  proof (rule ccontr)
    assume "\<not> X \<le> of_int r + 1 / 2"
    then have "of_int r + 1 / 2 < X" by simp
    then have "(of_int r + 1 / 2) * Bq < X * Bq" using Bpos by (simp only: mult_strict_right_mono)
    then have "(of_int r + 1 / 2) * Bq < 100 * A" by (simp only: XB)
    then have "(2 * of_int r + 1) * Bq < 200 * A" by (simp add: algebra_simps)
    then have "(2 * of_int r + 1) * Bq + 1 \<le> 200 * A"
      unfolding A_def Bq_def by (rule int_gap_up)
    then have "((2 * of_int r + 1) * Bq + 1) / (2 * Bq) \<le> 200 * A / (2 * Bq)"
      using Bpos by (intro divide_right_mono) simp_all
    moreover have "200 * A / (2 * Bq) = X"
      by (simp add: X_def x_def)
    moreover have "((2 * of_int r + 1) * Bq + 1) / (2 * Bq) = of_int r + 1 / 2 + 1 / (2 * Bq)"
      using Bpos by (simp add: add_divide_distrib)
    ultimately have "of_int r + 1 / 2 + 1 / (2 * Bq) \<le> X"
      by simp
    with err gap rb show False by linarith
  qed
  have down: "of_int r - 1 / 2 \<le> X"
  proof (rule ccontr)
    assume "\<not> of_int r - 1 / 2 \<le> X"
    then have "X < of_int r - 1 / 2" by simp
    then have "X * Bq < (of_int r - 1 / 2) * Bq" using Bpos by (simp only: mult_strict_right_mono)
    then have "100 * A < (of_int r - 1 / 2) * Bq" by (simp only: XB)
    then have "200 * A < (2 * of_int r - 1) * Bq" by (simp add: algebra_simps)
    then have "200 * A + 1 \<le> (2 * of_int r - 1) * Bq"
      unfolding A_def Bq_def by (rule int_gap_down)
    then have "(200 * A + 1) / (2 * Bq) \<le> (2 * of_int r - 1) * Bq / (2 * Bq)"
      using Bpos by (intro divide_right_mono) simp_all
    moreover have "(200 * A + 1) / (2 * Bq) = X + 1 / (2 * Bq)"
      by (simp add: X_def x_def add_divide_distrib)
    moreover have "(2 * of_int r - 1) * Bq / (2 * Bq) = of_int r - 1 / 2"
      using Bpos by (simp add: diff_divide_distrib)
    ultimately have "X + 1 / (2 * Bq) \<le> of_int r - 1 / 2"
      by simp
    with err gap rb show False by linarith
  qed
  have "percent a b = r"
    by (simp add: percent_def r_def p_def y_def q_def x_def A_def Bq_def B_def)
  moreover have "100 * of_nat a / of_nat (max 1 b) = X"
    by (simp add: X_def x_def A_def Bq_def B_def)
  moreover from up down have "\<bar>of_int r - X\<bar> \<le> 1 / 2" by linarith
  ultimately show ?thesis by simp
qed


lemma exponent_upper: "0 < x \<Longrightarrow> x < 2 powi (exponent x + 1)"
proof (cases "1 \<le> x")
  case True
  define n where "n = \<lfloor>x\<rfloor>"
  from True have n: "0 < n" by (simp add: n_def)
  from bitlen_bounds [OF n] have "n + 1 \<le> 2 ^ nat (bitlen n)" by simp
  then have "(of_int (n + 1) :: rat) \<le> 2 ^ nat (bitlen n)"
    by (metis of_int_le_iff of_int_numeral of_int_power)
  moreover have "x < of_int (n + 1)" unfolding n_def by linarith
  ultimately have "x < 2 ^ nat (bitlen n)" by (rule less_le_trans [rotated])
  moreover have "(2::rat) powi (bitlen n) = 2 ^ nat (bitlen n)"
    using bitlen_nonneg [of n] by (simp add: power_int_def)
  ultimately show ?thesis using True by (simp add: exponent_def n_def)
next
  case False
  assume pos: "0 < x"
  define m where "m = \<lceil>1 / x\<rceil> - 1"
  from False pos have "1 < 1 / x" by simp
  then have "1 < \<lceil>1 / x\<rceil>" by (simp add: less_ceiling_iff)
  then have m: "0 < m" by (simp add: m_def)
  from m have b1: "1 \<le> bitlen m" by (auto simp: bitlen_alt_def)
  from bitlen_bounds [OF m] have "2 ^ nat (bitlen m - 1) \<le> m" by simp
  then have "(2::rat) ^ nat (bitlen m - 1) \<le> of_int m"
    by (metis of_int_le_iff of_int_numeral of_int_power)
  moreover have "of_int m < 1 / x" unfolding m_def by linarith
  ultimately have "(2::rat) ^ nat (bitlen m - 1) < 1 / x" by (rule le_less_trans)
  with pos have "x < 1 / 2 ^ nat (bitlen m - 1)"
    by (simp add: field_simps)
  moreover have "(2::rat) powi (- bitlen m + 1) = 1 / 2 ^ nat (bitlen m - 1)"
    using b1 by (simp add: power_int_def field_simps)
  ultimately show ?thesis using False by (simp add: exponent_def m_def)
qed

lemma foldl_lessons:
  "foldl (\<lambda>acc curr. acc + length (Object_keys curr)) n (Object_values r) = n + length (lessons_of r)"
  by (induction r arbitrary: n) (auto simp: Object_values_def lessons_of_def Object_keys_def)

lemma totalLessons_lessons_of: "totalLessons r = length (lessons_of r)"
  by (simp add: totalLessons_def foldl_lessons)

section \<open>Completed lessons\<close>


text \<open>
  C2. A lesson whose identifier \<^verbatim>\<open>chapter: lesson\<close> is in the completed list of the
  progress record is reported completed, and unlocked, whatever the roadmap and the
  current chapter and lesson of the record are.
\<close>

theorem completed_lesson_is_completed_and_unlocked:
  assumes "completed_lessons p = Some done"
    and "lesson_id chapter lesson \<in> set done"
  shows "isLessonCompleted (Some p) chapter lesson
    \<and> isLessonUnlocked rm (Some p) chapter lesson = Inr True
    \<and> isLessonUnlocked rm (Some (p\<lparr>current_chapter := cc, current_lesson := cl\<rparr>)) chapter lesson = Inr True"
  using assms by (simp add: isLessonCompleted_def isLessonUnlocked_def)

theorem completed_lesson_witness:
  "isLessonCompleted
     (Some \<lparr>completed_lessons = Some [''A: L1''], current_chapter = Some ''B'',
            current_lesson = Some ''L3'', status = Some ''in_progress''\<rparr>) ''A'' ''L1''
   \<and> isLessonUnlocked (Some [(''A'', [(''L1'', ''d''), (''L2'', ''e'')]), (''B'', [(''L3'', ''f'')])])
     (Some \<lparr>completed_lessons = Some [''A: L1''], current_chapter = Some ''B'',
            current_lesson = Some ''L3'', status = Some ''in_progress''\<rparr>) ''A'' ''L1'' = Inr True"
  using completed_lesson_is_completed_and_unlocked
    [of "\<lparr>completed_lessons = Some [''A: L1''], current_chapter = Some ''B'',
          current_lesson = Some ''L3'', status = Some ''in_progress''\<rparr>"
        "[''A: L1'']" "''A''" "''L1''"
        "Some [(''A'', [(''L1'', ''d''), (''L2'', ''e'')]), (''B'', [(''L3'', ''f'')])]"]
  by (simp add: lesson_id_def)


section \<open>The unlock rule\<close>

text \<open>
  C1, as amended. For a roadmap \<open>r\<close>, a progress record \<open>p\<close> and a lesson that is not
  completed, \<^verbatim>\<open>isLessonUnlocked\<close> answers true exactly when the lesson is the current
  pair of \<open>p\<close>, or the status of \<open>p\<close> is \<^verbatim>\<open>not_started\<close> and the lesson is the first
  lesson of the first chapter. The status alone guards the second rule: the completed list
  is not consulted. For a roadmap whose first chapter has a lesson and an empty record
  \<open>q\<close> with status \<^verbatim>\<open>not_started\<close>, that first lesson is the only unlocked one and
  every other lesson of the roadmap is locked.
\<close>

theorem unlock_rule:
  "(\<not> isLessonCompleted (Some p) c l \<longrightarrow>
      isLessonUnlocked (Some r) (Some p) c l =
        Inr (is_current p c l \<or> (status p = Some ''not_started'' \<and> first_lesson r = Some (c, l))))
   \<and> (no_progress q \<and> status q = Some ''not_started'' \<and> first_lesson r = Some (c0, l0) \<longrightarrow>
        set (unlocked_lessons r q) = {(c0, l0)}
        \<and> (\<forall>(c', l') \<in> set (lessons_of r).
              (c', l') \<noteq> (c0, l0) \<longrightarrow> isLessonUnlocked (Some r) (Some q) c' l' = Inr False))"
proof (intro conjI impI)
  assume "\<not> isLessonCompleted (Some p) c l"
  then show "isLessonUnlocked (Some r) (Some p) c l =
      Inr (is_current p c l \<or> (status p = Some ''not_started'' \<and> first_lesson r = Some (c, l)))"
    by (rule isLessonUnlocked_not_completed)
next
  assume h: "no_progress q \<and> status q = Some ''not_started'' \<and> first_lesson r = Some (c0, l0)"
  then have nd: "\<not> isLessonCompleted (Some q) c' l'" for c' l'
    by (auto simp: no_progress_def isLessonCompleted_def)
  from h have nc: "\<not> is_current q c' l'" for c' l'
    by (simp add: no_progress_def is_current_def)
  have unl: "isLessonUnlocked (Some r) (Some q) c' l' = Inr ((c', l') = (c0, l0))" for c' l'
    using isLessonUnlocked_not_completed [of q c' l' r] nd nc h by auto
  from h have "(c0, l0) \<in> set (lessons_of r)"
    by (simp add: first_lesson_in_lessons_of)
  then show "set (unlocked_lessons r q) = {(c0, l0)}"
    by (auto simp: unlocked_lessons_def unl)
  show "\<forall>(c', l') \<in> set (lessons_of r).
      (c', l') \<noteq> (c0, l0) \<longrightarrow> isLessonUnlocked (Some r) (Some q) c' l' = Inr False"
    by (auto simp: unl)
qed

theorem unlock_rule_witness:
  "isLessonUnlocked (Some [(''A'', [(''L1'', ''a''), (''L2'', ''b'')]), (''B'', [(''L3'', ''c'')])])
     (Some \<lparr>completed_lessons = Some [''A: L1''], current_chapter = Some ''A'',
            current_lesson = Some ''L2'', status = Some ''in_progress''\<rparr>) ''A'' ''L2'' = Inr True
   \<and> set (unlocked_lessons [(''A'', [(''L1'', ''a''), (''L2'', ''b'')]), (''B'', [(''L3'', ''c'')])]
        \<lparr>completed_lessons = Some [], current_chapter = None, current_lesson = None,
         status = Some ''not_started''\<rparr>) = {(''A'', ''L1'')}
   \<and> isLessonUnlocked (Some [(''A'', [(''L1'', ''a''), (''L2'', ''b'')]), (''B'', [(''L3'', ''c'')])])
     (Some \<lparr>completed_lessons = Some [], current_chapter = None, current_lesson = None,
            status = Some ''not_started''\<rparr>) ''B'' ''L3'' = Inr False"
  using unlock_rule
    [of "\<lparr>completed_lessons = Some [''A: L1''], current_chapter = Some ''A'',
          current_lesson = Some ''L2'', status = Some ''in_progress''\<rparr>" "''A''" "''L2''"
        "[(''A'', [(''L1'', ''a''), (''L2'', ''b'')]), (''B'', [(''L3'', ''c'')])]"
        "\<lparr>completed_lessons = Some [], current_chapter = None, current_lesson = None,
          status = Some ''not_started''\<rparr>" "''A''" "''L1''"]
  by (simp add: isLessonCompleted_def lesson_id_def is_current_def no_progress_def
      first_lesson_def lessons_of_def)

text \<open>
  The rule as the specification words it fails twice. With status \<^verbatim>\<open>not_started\<close>,
  a completed lesson \<^verbatim>\<open>A: L2\<close> and the current pair \<^verbatim>\<open>(A, L3)\<close>, the code still unlocks
  the first lesson \<^verbatim>\<open>(A, L1)\<close>, which is neither completed nor current, although progress
  exists. And for the roadmap \<^verbatim>\<open>{A: {}, B: {L3: c}}\<close>, which has a chapter and a lesson,
  and an empty record with status \<^verbatim>\<open>not_started\<close>, no lesson at all is unlocked.
\<close>

theorem unlock_rule_counterexample:
  "\<not> isLessonCompleted
       (Some \<lparr>completed_lessons = Some [''A: L2''], current_chapter = Some ''A'',
              current_lesson = Some ''L3'', status = Some ''not_started''\<rparr>) ''A'' ''L1''
   \<and> isLessonUnlocked (Some [(''A'', [(''L1'', ''a''), (''L2'', ''b''), (''L3'', ''c'')])])
       (Some \<lparr>completed_lessons = Some [''A: L2''], current_chapter = Some ''A'',
              current_lesson = Some ''L3'', status = Some ''not_started''\<rparr>) ''A'' ''L1'' = Inr True
   \<and> \<not> spec_unlocked [(''A'', [(''L1'', ''a''), (''L2'', ''b''), (''L3'', ''c'')])]
       \<lparr>completed_lessons = Some [''A: L2''], current_chapter = Some ''A'',
        current_lesson = Some ''L3'', status = Some ''not_started''\<rparr> ''A'' ''L1''
   \<and> lessons_of [(''A'', []), (''B'', [(''L3'', ''c'')])] = [(''B'', ''L3'')]
   \<and> no_progress \<lparr>completed_lessons = Some [], current_chapter = None, current_lesson = None,
        status = Some ''not_started''\<rparr>
   \<and> unlocked_lessons [(''A'', []), (''B'', [(''L3'', ''c'')])]
        \<lparr>completed_lessons = Some [], current_chapter = None, current_lesson = None,
         status = Some ''not_started''\<rparr> = []"
  by (simp add: isLessonCompleted_def isLessonUnlocked_def lesson_id_def spec_unlocked_def
      is_current_def no_progress_def lessons_of_def unlocked_lessons_def Object_keys_def
      get_prop_def)

section \<open>Stale progress\<close>

text \<open>
  C3. \<^verbatim>\<open>isLessonUnlocked\<close> returns a boolean for every roadmap state, progress state,
  chapter and lesson: it never throws. When the current pair of the progress record is
  not a lesson of the roadmap, a lesson of the roadmap that is not completed and that the
  first-lesson rule does not match is reported locked.
\<close>

theorem unlock_total_stale_locked:
  "(\<exists>b. isLessonUnlocked rm prog c l = Inr b)
   \<and> (\<not> current_in_roadmap r p \<and> (c', l') \<in> set (lessons_of r)
        \<and> \<not> isLessonCompleted (Some p) c' l'
        \<and> \<not> (status p = Some ''not_started'' \<and> first_lesson r = Some (c', l'))
      \<longrightarrow> isLessonUnlocked (Some r) (Some p) c' l' = Inr False)"
proof (intro conjI impI)
  show "\<exists>b. isLessonUnlocked rm prog c l = Inr b"
    by (rule isLessonUnlocked_total)
next
  assume h: "\<not> current_in_roadmap r p \<and> (c', l') \<in> set (lessons_of r)
        \<and> \<not> isLessonCompleted (Some p) c' l'
        \<and> \<not> (status p = Some ''not_started'' \<and> first_lesson r = Some (c', l'))"
  then have "\<not> is_current p c' l'"
    by (auto simp: current_in_roadmap_def is_current_def)
  with h show "isLessonUnlocked (Some r) (Some p) c' l' = Inr False"
    using isLessonUnlocked_not_completed [of p c' l' r] by simp
qed

theorem unlock_total_stale_locked_witness:
  "\<not> current_in_roadmap [(''A'', [(''L1'', ''a''), (''L2'', ''b'')]), (''B'', [(''L3'', ''c'')])]
       \<lparr>completed_lessons = Some [''A: L1''], current_chapter = Some ''Old chapter'',
        current_lesson = Some ''L2'', status = Some ''in_progress''\<rparr>
   \<and> isLessonUnlocked (Some [(''A'', [(''L1'', ''a''), (''L2'', ''b'')]), (''B'', [(''L3'', ''c'')])])
       (Some \<lparr>completed_lessons = Some [''A: L1''], current_chapter = Some ''Old chapter'',
              current_lesson = Some ''L2'', status = Some ''in_progress''\<rparr>) ''A'' ''L2'' = Inr False"
  using unlock_total_stale_locked
    [of None None "''A''" "''L2''"
        "[(''A'', [(''L1'', ''a''), (''L2'', ''b'')]), (''B'', [(''L3'', ''c'')])]"
        "\<lparr>completed_lessons = Some [''A: L1''], current_chapter = Some ''Old chapter'',
          current_lesson = Some ''L2'', status = Some ''in_progress''\<rparr>" "''A''" "''L2''"]
  by (simp add: current_in_roadmap_def lessons_of_def isLessonCompleted_def lesson_id_def)

section \<open>Quiz transitions\<close>

text \<open>
  C5. Submitting with no selected option leaves the quiz state unchanged. Submitting with
  selected option \<open>i\<close> on the current question \<open>q\<close> sets \<open>isAnswered\<close> and sets
  \<open>isCorrect\<close> to the truth value of \<open>i = correct_option_index q\<close>, changing nothing else.
  Once \<open>isAnswered\<close> holds, selecting any option leaves the state unchanged; in particular
  after selecting \<open>i\<close> and submitting, selecting \<open>j\<close> changes nothing.
\<close>

theorem quiz_submit_select:
  "(selectedOption s = None \<longrightarrow> handleSubmitAnswer content s = Inr s)
   \<and> (selectedOption t = Some i \<and> at_index (questions content) (currentQuestionIdx t) = Some q \<longrightarrow>
        handleSubmitAnswer content t =
          Inr (t\<lparr>isAnswered := True, isCorrect := (i = correct_option_index q)\<rparr>))
   \<and> (isAnswered u \<longrightarrow> handleOptionSelect u j = u)
   \<and> (\<not> isAnswered v \<and> at_index (questions content) (currentQuestionIdx v) = Some q \<longrightarrow>
        (\<exists>w. handleSubmitAnswer content (handleOptionSelect v i) = Inr w
           \<and> isAnswered w \<and> isCorrect w = (i = correct_option_index q)
           \<and> selectedOption w = Some i \<and> handleOptionSelect w j = w))"
  by (auto simp: handleSubmitAnswer_def handleOptionSelect_def)

theorem quiz_submit_select_witness:
  "handleSubmitAnswer
     \<lparr>lesson_title = ''T'', content_markdown = ''M'',
      questions = [\<lparr>question_text = ''Q'', options = [''x'', ''y'', ''z''],
                    correct_option_index = 2, explanation = ''E''\<rparr>]\<rparr>
     \<lparr>mode = Quiz, currentQuestionIdx = 0, selectedOption = Some 2,
      isAnswered = False, isCorrect = False\<rparr>
   = Inr \<lparr>mode = Quiz, currentQuestionIdx = 0, selectedOption = Some 2,
          isAnswered = True, isCorrect = True\<rparr>
   \<and> handleOptionSelect
       \<lparr>mode = Quiz, currentQuestionIdx = 0, selectedOption = Some 2,
        isAnswered = True, isCorrect = True\<rparr> 1
     = \<lparr>mode = Quiz, currentQuestionIdx = 0, selectedOption = Some 2,
        isAnswered = True, isCorrect = True\<rparr>
   \<and> handleSubmitAnswer
       \<lparr>lesson_title = ''T'', content_markdown = ''M'',
        questions = [\<lparr>question_text = ''Q'', options = [''x'', ''y'', ''z''],
                      correct_option_index = 2, explanation = ''E''\<rparr>]\<rparr>
       \<lparr>mode = Quiz, currentQuestionIdx = 0, selectedOption = None,
        isAnswered = False, isCorrect = False\<rparr>
     = Inr \<lparr>mode = Quiz, currentQuestionIdx = 0, selectedOption = None,
            isAnswered = False, isCorrect = False\<rparr>"
  using quiz_submit_select
    [of "\<lparr>mode = Quiz, currentQuestionIdx = 0, selectedOption = None,
          isAnswered = False, isCorrect = False\<rparr>"
        "\<lparr>lesson_title = ''T'', content_markdown = ''M'',
          questions = [\<lparr>question_text = ''Q'', options = [''x'', ''y'', ''z''],
                        correct_option_index = 2, explanation = ''E''\<rparr>]\<rparr>"
        "\<lparr>mode = Quiz, currentQuestionIdx = 0, selectedOption = Some 2,
          isAnswered = False, isCorrect = False\<rparr>"
        2
        "\<lparr>question_text = ''Q'', options = [''x'', ''y'', ''z''],
          correct_option_index = 2, explanation = ''E''\<rparr>"
        "\<lparr>mode = Quiz, currentQuestionIdx = 0, selectedOption = Some 2,
          isAnswered = True, isCorrect = True\<rparr>"
        1
        "\<lparr>mode = Quiz, currentQuestionIdx = 0, selectedOption = None,
          isAnswered = False, isCorrect = False\<rparr>"]
  by simp

text \<open>
  C6. Advancing from an answered question: when another question remains, the question
  index grows by one and the selected option, \<open>isAnswered\<close> and \<open>isCorrect\<close> are reset,
  the mode staying as it is; when the answered question is the last one, the mode becomes
  \<open>Completed\<close> and nothing else changes.
\<close>

theorem quiz_advance:
  "(isAnswered s \<and> currentQuestionIdx s + 1 < length (questions content) \<longrightarrow>
      handleNextQuestion content s =
        s\<lparr>currentQuestionIdx := currentQuestionIdx s + 1, selectedOption := None,
          isAnswered := False, isCorrect := False\<rparr>)
   \<and> (isAnswered t \<and> length (questions content) \<le> currentQuestionIdx t + 1 \<longrightarrow>
        handleNextQuestion content t = t\<lparr>mode := Completed\<rparr>)"
  by (auto simp: handleNextQuestion_def)

theorem quiz_advance_witness:
  "handleNextQuestion
     \<lparr>lesson_title = ''T'', content_markdown = ''M'',
      questions = [\<lparr>question_text = ''Q1'', options = [''x'', ''y''],
                    correct_option_index = 0, explanation = ''E1''\<rparr>,
                   \<lparr>question_text = ''Q2'', options = [''x'', ''y''],
                    correct_option_index = 1, explanation = ''E2''\<rparr>]\<rparr>
     \<lparr>mode = Quiz, currentQuestionIdx = 0, selectedOption = Some 1,
      isAnswered = True, isCorrect = False\<rparr>
   = \<lparr>mode = Quiz, currentQuestionIdx = 1, selectedOption = None,
      isAnswered = False, isCorrect = False\<rparr>
   \<and> handleNextQuestion
     \<lparr>lesson_title = ''T'', content_markdown = ''M'',
      questions = [\<lparr>question_text = ''Q1'', options = [''x'', ''y''],
                    correct_option_index = 0, explanation = ''E1''\<rparr>,
                   \<lparr>question_text = ''Q2'', options = [''x'', ''y''],
                    correct_option_index = 1, explanation = ''E2''\<rparr>]\<rparr>
     \<lparr>mode = Quiz, currentQuestionIdx = 1, selectedOption = Some 1,
      isAnswered = True, isCorrect = True\<rparr>
   = \<lparr>mode = Completed, currentQuestionIdx = 1, selectedOption = Some 1,
      isAnswered = True, isCorrect = True\<rparr>"
  using quiz_advance
    [of "\<lparr>mode = Quiz, currentQuestionIdx = 0, selectedOption = Some 1,
          isAnswered = True, isCorrect = False\<rparr>"
        "\<lparr>lesson_title = ''T'', content_markdown = ''M'',
          questions = [\<lparr>question_text = ''Q1'', options = [''x'', ''y''],
                        correct_option_index = 0, explanation = ''E1''\<rparr>,
                       \<lparr>question_text = ''Q2'', options = [''x'', ''y''],
                        correct_option_index = 1, explanation = ''E2''\<rparr>]\<rparr>"
        "\<lparr>mode = Quiz, currentQuestionIdx = 1, selectedOption = Some 1,
          isAnswered = True, isCorrect = True\<rparr>"]
  by simp

section \<open>Next lesson\<close>




text \<open>
  C10. When the chapter of the completed lesson is not a chapter title of the fetched
  roadmap, the resolution does not throw and the handler posts a completion whose next
  chapter and next lesson are the completed chapter and lesson.
\<close>

theorem stale_chapter_holds_position:
  "ref_chapter cur \<notin> set (Object_keys r) \<longrightarrow>
     next_position r (ref_chapter cur) (ref_lesson cur) = Inr (ref_chapter cur, Some (ref_lesson cur))
     \<and> handleLessonComplete t (Some cur) (Resolved (Some r)) res =
         [GetRoadmap t,
          PostComplete \<lparr>payload_topic = t,
            payload_current_chapter = ref_chapter cur, payload_current_lesson = ref_lesson cur,
            payload_next_chapter = ref_chapter cur, payload_next_lesson = Some (ref_lesson cur)\<rparr>]
         @ (case res of Rejected err \<Rightarrow> save_failed | Resolved u \<Rightarrow> [BackToRoadmap])"
  by (simp add: next_position_def handleLessonComplete_def Let_def indexOf_notin
      split: response.split)

theorem stale_chapter_holds_position_witness:
  "handleLessonComplete ''Python''
     (Some \<lparr>ref_topic = ''Python'', ref_chapter = ''Old'', ref_lesson = ''L9''\<rparr>)
     (Resolved (Some [(''A'', [(''L1'', ''a''), (''L2'', ''b'')]), (''B'', [(''L3'', ''c'')])]))
     (Resolved ())
   = [GetRoadmap ''Python'',
      PostComplete \<lparr>payload_topic = ''Python'',
        payload_current_chapter = ''Old'', payload_current_lesson = ''L9'',
        payload_next_chapter = ''Old'', payload_next_lesson = Some ''L9''\<rparr>,
      BackToRoadmap]"
  using stale_chapter_holds_position
    [of "\<lparr>ref_topic = ''Python'', ref_chapter = ''Old'', ref_lesson = ''L9''\<rparr>"
        "[(''A'', [(''L1'', ''a''), (''L2'', ''b'')]), (''B'', [(''L3'', ''c'')])]"
        "''Python''" "Resolved ()"]
  by (simp add: Object_keys_def)

section \<open>Deleting a topic\<close>

text \<open>
  C9. \<^verbatim>\<open>handleDelete\<close> asks for confirmation first. Declined, it sends no request and
  the displayed list stays as it is. Confirmed, it sends exactly one delete request, for
  that topic; when the request succeeds the displayed list is the old one without the
  topic and nothing is alerted; when it fails the displayed list is unchanged and one
  alert is shown.
\<close>

theorem delete_topic:
  "hd (handleDelete (st_topics s) t confirmed res) = Confirm t
   \<and> filter is_request (handleDelete (st_topics s) t False res) = []
   \<and> st_topics (state_after s (handleDelete (st_topics s) t False res)) = st_topics s
   \<and> filter is_request (handleDelete (st_topics s) t True res) = [DeleteTopic t]
   \<and> st_topics (state_after s (handleDelete (st_topics s) t True (Resolved u)))
       = filter (\<lambda>x. x \<noteq> t) (st_topics s)
   \<and> t \<notin> set (st_topics (state_after s (handleDelete (st_topics s) t True (Resolved u))))
   \<and> filter is_alert (handleDelete (st_topics s) t True (Resolved u)) = []
   \<and> st_topics (state_after s (handleDelete (st_topics s) t True (Rejected err))) = st_topics s
   \<and> length (filter is_alert (handleDelete (st_topics s) t True (Rejected err))) = 1"
  by (simp add: handleDelete_def state_after_def split: response.split)

theorem delete_topic_witness:
  "st_topics (state_after
      \<lparr>st_topics = [''Python'', ''Rust'', ''Go''], st_loading = False, st_error = None,
       st_deleteLoading = None\<rparr>
      (handleDelete [''Python'', ''Rust'', ''Go''] ''Rust'' True (Resolved ()))) = [''Python'', ''Go'']
   \<and> st_topics (state_after
      \<lparr>st_topics = [''Python'', ''Rust'', ''Go''], st_loading = False, st_error = None,
       st_deleteLoading = None\<rparr>
      (handleDelete [''Python'', ''Rust'', ''Go''] ''Rust'' True (Rejected network_error)))
     = [''Python'', ''Rust'', ''Go'']
   \<and> handleDelete [''Python'', ''Rust'', ''Go''] ''Rust'' False (Resolved ()) = [Confirm ''Rust'']"
  using delete_topic
    [of "\<lparr>st_topics = [''Python'', ''Rust'', ''Go''], st_loading = False, st_error = None,
          st_deleteLoading = None\<rparr>" "''Rust''" True "Resolved ()" "()" network_error]
  by (simp add: handleDelete_def)

section \<open>Retrying the topic list\<close>

text \<open>
  C8, at the input where the code departs from it. The backend is unreachable for the
  request of the mount effect and for every retry. The code makes six requests, five of
  them retries scheduled 2000 ms after a failure, and then sets the error. But no call
  with a retry count above zero resets \<open>loading\<close>, so the final state has
  \<open>loading\<close> set and no topics, and the component renders the spinner: the error banner
  with its Retry button is not shown. The sibling paths do show it: an error that is not
  retried, and the same outage after a click on Retry, whose closure has \<open>loading\<close>
  false.
\<close>

theorem initial_fetch_backend_down:
  "filter is_request (fetchTopics True (\<lambda>n. Rejected network_error) 0) = replicate 6 GetTopics
   \<and> timeout_delays (fetchTopics True (\<lambda>n. Rejected network_error) 0) = replicate 5 2000
   \<and> state_after initial_dashboard (fetchTopics True (\<lambda>n. Rejected network_error) 0)
       = \<lparr>st_topics = [], st_loading = True, st_error = Some BackendNotRunning,
          st_deleteLoading = None\<rparr>
   \<and> render_view (state_after initial_dashboard (fetchTopics True (\<lambda>n. Rejected network_error) 0))
       = Spinner
   \<and> render_view (state_after initial_dashboard
         (fetchTopics True
            (\<lambda>n. Rejected \<lparr>err_code = Some ''ERR_BAD_REQUEST'',
                             err_message = Some ''Request failed with status code 404'',
                             err_status = Some 404\<rparr>) 0))
       = Listing (Some FailedToLoadTopics)
   \<and> render_view (state_after (initial_dashboard\<lparr>st_loading := False\<rparr>)
         (fetchTopics False (\<lambda>n. Rejected network_error) 0))
       = Listing (Some BackendNotRunning)"
  by (simp add: state_after_def render_view_def initial_dashboard_def network_error_def
      isBackendDown_def finally_loading_def numeral_eq_Suc)

section \<open>Overall completion percentage\<close>

text \<open>
  C4, as amended. With \<open>n\<close> the length of the completed list (below \<open>2 ^ 32\<close>, as
  every JavaScript array length is) and \<open>t\<close> the number of lessons of all chapters, the
  percentage is an integer nearest to \<open>100 * n / max 1 t\<close>: it differs from that
  quotient by at most one half. The divisor is never zero. When the roadmap has no
  lesson the percentage is \<open>100 * n\<close>, which is zero only when nothing is completed.
\<close>

theorem progress_percent:
  "completedCount prog < 2 ^ 32 \<longrightarrow>
     \<bar>of_int (progressPercent r prog)
        - 100 * of_nat (completedCount prog) / of_nat (max 1 (length (lessons_of r)))\<bar> \<le> (1 / 2 :: rat)
     \<and> (of_nat (max 1 (totalLessons r)) :: rat) \<noteq> 0
     \<and> (lessons_of r = [] \<longrightarrow> progressPercent r prog = 100 * int (completedCount prog))
     \<and> (lessons_of r = [] \<and> completedCount prog = 0 \<longrightarrow> progressPercent r prog = 0)"
proof (intro impI)
  assume a: "completedCount prog < 2 ^ 32"
  have near: "\<bar>of_int (progressPercent r prog)
        - 100 * of_nat (completedCount prog) / of_nat (max 1 (length (lessons_of r)))\<bar> \<le> (1 / 2 :: rat)"
    using percent_nearest [OF a, of "totalLessons r"]
    by (simp add: progressPercent_def totalLessons_lessons_of)
  have empty: "progressPercent r prog = 100 * int (completedCount prog)" if "lessons_of r = []"
  proof -
    from near that
    have "\<bar>(of_int (progressPercent r prog) :: rat) - of_int (100 * int (completedCount prog))\<bar> \<le> 1 / 2"
      by simp
    then have "\<bar>(of_int (progressPercent r prog - 100 * int (completedCount prog)) :: rat)\<bar> < of_int 1"
      by simp
    then have "\<bar>progressPercent r prog - 100 * int (completedCount prog)\<bar> < 1"
      by (simp only: of_int_abs [symmetric] of_int_less_iff)
    then show ?thesis by simp
  qed
  from near empty show "\<bar>of_int (progressPercent r prog)
        - 100 * of_nat (completedCount prog) / of_nat (max 1 (length (lessons_of r)))\<bar> \<le> (1 / 2 :: rat)
     \<and> (of_nat (max 1 (totalLessons r)) :: rat) \<noteq> 0
     \<and> (lessons_of r = [] \<longrightarrow> progressPercent r prog = 100 * int (completedCount prog))
     \<and> (lessons_of r = [] \<and> completedCount prog = 0 \<longrightarrow> progressPercent r prog = 0)"
    by simp
qed

theorem progress_percent_witness:
  "progressPercent [(''A'', [(''L1'', ''a''), (''L2'', ''b'')]), (''B'', [(''L3'', ''c'')])]
     (Some \<lparr>completed_lessons = Some [''A: L1''], current_chapter = Some ''A'',
            current_lesson = Some ''L2'', status = Some ''in_progress''\<rparr>) = 33
   \<and> progressPercent [] None = 0"
proof -
  let ?r = "[(''A'', [(''L1'', ''a''), (''L2'', ''b'')]), (''B'', [(''L3'', ''c'')])]"
  let ?p = "Some \<lparr>completed_lessons = Some [''A: L1''], current_chapter = Some ''A'',
            current_lesson = Some ''L2'', status = Some ''in_progress''\<rparr>"
  have c: "completedCount ?p = 1" "length (lessons_of ?r) = 3"
    by (simp_all add: completedCount_def lessons_of_def)
  have "completedCount ?p < 2 ^ 32" by (simp add: c)
  with progress_percent [of ?p ?r]
  have "\<bar>of_int (progressPercent ?r ?p) - 100 * of_nat (completedCount ?p) / of_nat (max 1 (length (lessons_of ?r)))\<bar> \<le> (1 / 2 :: rat)"
    by blast
  then have h: "\<bar>(of_int (progressPercent ?r ?p) :: rat) - 100 / 3\<bar> \<le> 1 / 2"
    by (simp only: c)
  define pp where "pp = progressPercent ?r ?p"
  from h have "(32 :: rat) < of_int pp" "(of_int pp :: rat) < 34"
    unfolding pp_def [symmetric] by linarith+
  then have "32 < pp" "pp < 34" by simp_all
  then have one: "progressPercent ?r ?p = 33" by (simp add: pp_def)
  have "completedCount None < 2 ^ 32" "lessons_of [] = []" "completedCount None = 0"
    by (simp_all add: completedCount_def lessons_of_def)
  with progress_percent [of None "[]"] have "progressPercent [] None = 0" by blast
  with one show ?thesis by simp
qed

text \<open>
  The roadmap \<^verbatim>\<open>{A: {}}\<close> has a chapter and no lesson; with one completed identifier
  left in the progress record the percentage is 100, not 0.
\<close>

theorem progress_percent_counterexample:
  "totalLessons [(''A'', [])] = 0
   \<and> progressPercent [(''A'', [])]
       (Some \<lparr>completed_lessons = Some [''A: L1''], current_chapter = Some ''A'',
              current_lesson = Some ''L2'', status = Some ''in_progress''\<rparr>) = 100"
proof -
  have "percent 1 0 = 100" by code_simp
  then show ?thesis
    by (simp add: progressPercent_def totalLessons_def completedCount_def Object_values_def
        Object_keys_def)
qed

text \<open>
  The two roundings of the double arithmetic show at ties: 29 of 200 is 14.5 percent
  exactly, the product computed in doubles is just below it, and the result is 14.
\<close>

lemma percent_double_rounding: "percent 29 200 = 14"
  by code_simp

end
